theory Spec2Isabelle
  imports Main
begin

section \<open>The OCR runner script \<^verbatim>\<open>typhoon_ocr_runner.py\<close>\<close>

text \<open>
  The script reads \<^verbatim>\<open>sys.argv\<close> and the process environment, calls the imported
  function \<^verbatim>\<open>ocr_document\<close> once, and prints either a JSON object on standard output
  or the text of the exception on standard error.

  Conventions of the model.
  \<^item> A Python \<^verbatim>\<open>str\<close> is a \<^typ>\<open>string\<close>; a character stands for the code point of the
    same number, so the model covers the strings whose code points are below 256.
  \<^item> An exception is an instance of a subclass of \<^verbatim>\<open>Exception\<close> (what the handler of the
    script catches), given by the name of its class and by the text \<^verbatim>\<open>str(exc)\<close>.
  \<^item> \<^verbatim>\<open>ocr_document\<close> is not part of the repository: it is a parameter of the model, a
    function from the keyword arguments to an exception or to the markdown text.
  \<^item> The effects are explicit: the record \<open>world\<close> holds what has been written on either
    stream and the keyword arguments of every call of \<^verbatim>\<open>ocr_document\<close>, in order.
  \<^item> Writing on a stream does not fail.
\<close>

subsection \<open>Values, exceptions, environment\<close>

datatype pyval = PNone | PStr string | PInt int

datatype pyexc = PyExc (exc_class: string) (exc_str: string)

definition ValueError :: "string \<Rightarrow> pyexc" where
  "ValueError msg = PyExc ''ValueError'' msg"

text \<open>Truth value testing: \<^verbatim>\<open>None\<close>, the empty string and zero are false.\<close>

fun truthy :: "pyval \<Rightarrow> bool" where
  "truthy PNone = False"
| "truthy (PStr s) = (s \<noteq> [])"
| "truthy (PInt n) = (n \<noteq> 0)"

text \<open>\<^verbatim>\<open>a or b\<close> is \<^verbatim>\<open>a\<close> when \<^verbatim>\<open>a\<close> is true, and \<^verbatim>\<open>b\<close> otherwise.\<close>

definition py_or :: "pyval \<Rightarrow> pyval \<Rightarrow> pyval" where
  "py_or a b = (if truthy a then a else b)"

type_synonym environ = "string \<rightharpoonup> string"

definition getenv :: "environ \<Rightarrow> string \<Rightarrow> pyval" where
  "getenv environ name = (case environ name of None \<Rightarrow> PNone | Some v \<Rightarrow> PStr v)"

subsection \<open>The builtin \<^verbatim>\<open>int\<close> on a string, base 10\<close>

text \<open>
  \<^verbatim>\<open>int(s)\<close> skips white space on both sides, reads an optional sign, then decimal
  digits in which single underscores may separate digits, and raises \<^verbatim>\<open>ValueError\<close> on
  anything else. Below code point 256 the white space is \<^verbatim>\<open>\t \n \x0b \x0c \r\<close>, the
  space, \<^verbatim>\<open>\x85\<close> and \<^verbatim>\<open>\xa0\<close>, and the decimal digits are \<^verbatim>\<open>0\<close> to \<^verbatim>\<open>9\<close>.
  The interpreter's optional limit on the number of digits
  (\<^verbatim>\<open>sys.set_int_max_str_digits\<close>) is not modelled: the integers are unbounded.
\<close>

definition is_space :: "char \<Rightarrow> bool" where
  "is_space c = (of_char c \<in> {9, 10, 11, 12, 13, 32, 133, 160 :: nat})"

definition is_digit :: "char \<Rightarrow> bool" where
  "is_digit c = (48 \<le> (of_char c :: nat) \<and> (of_char c :: nat) \<le> 57)"

definition digit_value :: "char \<Rightarrow> nat" where
  "digit_value c = of_char c - 48"

text \<open>
  The scan over digits and underscores: \<open>prev_us\<close> says that the character before was an
  underscore, \<open>acc\<close> is the value of the digits read. The result is the value and the rest
  of the string; two underscores in a row and an underscore at the end are errors.
\<close>

fun scan_digits :: "bool \<Rightarrow> nat \<Rightarrow> string \<Rightarrow> (nat \<times> string) option" where
  "scan_digits prev_us acc [] = (if prev_us then None else Some (acc, []))"
| "scan_digits prev_us acc (c # cs) =
     (if c = CHR ''_'' then (if prev_us then None else scan_digits True acc cs)
      else if is_digit c then scan_digits False (10 * acc + digit_value c) cs
      else if prev_us then None else Some (acc, c # cs))"

definition split_sign :: "string \<Rightarrow> bool \<times> string" where
  "split_sign s =
     (case s of
        [] \<Rightarrow> (False, [])
      | c # cs \<Rightarrow>
          if c = CHR ''+'' then (False, cs)
          else if c = CHR ''-'' then (True, cs)
          else (False, c # cs))"

definition parse_int :: "string \<Rightarrow> int option" where
  "parse_int s =
     (case split_sign (dropWhile is_space s) of
        (neg, t) \<Rightarrow>
          (case t of
             [] \<Rightarrow> None
           | c # _ \<Rightarrow>
               if \<not> is_digit c then None
               else
                 (case scan_digits False 0 t of
                    None \<Rightarrow> None
                  | Some (n, rest) \<Rightarrow>
                      if dropWhile is_space rest = []
                      then Some (if neg then - int n else int n)
                      else None)))"

text \<open>
  \<^verbatim>\<open>repr\<close> of a string, for the message of the \<^verbatim>\<open>ValueError\<close>: the quote is the double
  quote when the string has a single quote and no double quote, the single quote otherwise;
  the quote and the backslash are escaped, \<^verbatim>\<open>\t \n \r\<close> are written so, and a character
  that is not printable is written \<^verbatim>\<open>\xNN\<close>.
\<close>

definition hexdigits :: string where
  "hexdigits = ''0123456789abcdef''"

definition hex2 :: "nat \<Rightarrow> string" where
  "hex2 n = [hexdigits ! (n div 16), hexdigits ! (n mod 16)]"

definition is_printable :: "char \<Rightarrow> bool" where
  "is_printable c =
     (let n = (of_char c :: nat) in (32 \<le> n \<and> n < 127) \<or> (161 \<le> n \<and> n \<noteq> 173))"

definition repr_char :: "char \<Rightarrow> char \<Rightarrow> string" where
  "repr_char quote c =
     (if c = quote \<or> c = CHR 0x5C then [CHR 0x5C, c]
      else if c = CHR 0x09 then [CHR 0x5C, CHR ''t'']
      else if c = CHR 0x0A then [CHR 0x5C, CHR ''n'']
      else if c = CHR 0x0D then [CHR 0x5C, CHR ''r'']
      else if \<not> is_printable c then [CHR 0x5C, CHR ''x''] @ hex2 (of_char c)
      else [c])"

definition py_repr :: "string \<Rightarrow> string" where
  "py_repr s =
     (let quote = (if CHR 0x27 \<in> set s \<and> CHR 0x22 \<notin> set s then CHR 0x22 else CHR 0x27)
      in quote # concat (map (repr_char quote) s) @ [quote])"

text \<open>The message shows at most 200 characters of the \<^verbatim>\<open>repr\<close>.\<close>

definition py_int :: "string \<Rightarrow> pyexc + int" where
  "py_int s =
     (case parse_int s of
        None \<Rightarrow>
          Inl (ValueError (''invalid literal for int() with base 10: '' @ take 200 (py_repr s)))
      | Some n \<Rightarrow> Inr n)"

subsection \<open>\<^verbatim>\<open>json.dumps\<close> of a dictionary of strings\<close>

text \<open>
  With the default \<^verbatim>\<open>ensure_ascii=True\<close> a string is written between double quotes;
  the double quote and the backslash are escaped, \<^verbatim>\<open>\n \r \t \b \f\<close> are written so, and
  every other character outside the range from the space to \<^verbatim>\<open>~\<close> is written
  \<^verbatim>\<open>\uNNNN\<close>. The items of a dictionary are separated by \<^verbatim>\<open>, \<close> and a key from its
  value by \<^verbatim>\<open>: \<close>.
\<close>

definition json_escape_char :: "char \<Rightarrow> string" where
  "json_escape_char c =
     (if c = CHR 0x22 then [CHR 0x5C, CHR 0x22]
      else if c = CHR 0x5C then [CHR 0x5C, CHR 0x5C]
      else if c = CHR 0x0A then [CHR 0x5C, CHR ''n'']
      else if c = CHR 0x0D then [CHR 0x5C, CHR ''r'']
      else if c = CHR 0x09 then [CHR 0x5C, CHR ''t'']
      else if c = CHR 0x08 then [CHR 0x5C, CHR ''b'']
      else if c = CHR 0x0C then [CHR 0x5C, CHR ''f'']
      else if (of_char c :: nat) < 32 \<or> 126 < (of_char c :: nat)
        then [CHR 0x5C, CHR ''u'', CHR ''0'', CHR ''0''] @ hex2 (of_char c)
      else [c])"

definition py_encode_basestring_ascii :: "string \<Rightarrow> string" where
  "py_encode_basestring_ascii s = CHR 0x22 # concat (map json_escape_char s) @ [CHR 0x22]"

fun json_items :: "(string \<times> string) list \<Rightarrow> string" where
  "json_items [] = []"
| "json_items [(k, v)] =
     py_encode_basestring_ascii k @ '': '' @ py_encode_basestring_ascii v"
| "json_items ((k, v) # kvs) =
     py_encode_basestring_ascii k @ '': '' @ py_encode_basestring_ascii v @ '', '' @ json_items kvs"

definition json_dumps :: "(string \<times> string) list \<Rightarrow> string" where
  "json_dumps d = ''{'' @ json_items d @ ''}''"

subsection \<open>The script\<close>

type_synonym kwargs = "string \<rightharpoonup> pyval"

record world =
  stdout :: string
  stderr :: string
  ocr_calls :: "kwargs list"

definition print :: "string \<Rightarrow> string \<Rightarrow> string" where
  "print stream text = stream @ text @ [CHR 0x0A]"

definition usage :: string where
  "usage = ''Usage: typhoon_ocr_runner.py <file_path> [page_num]''"

definition main ::
  "environ \<Rightarrow> (kwargs \<Rightarrow> pyexc + string) \<Rightarrow> string list \<Rightarrow> world \<Rightarrow> (pyexc + unit) \<times> world"
where
  "main environ ocr_document argv w =
     (if length argv < 2 then (Inl (ValueError usage), w)
      else
        let file_path = argv ! 1 in
        case (if 3 \<le> length argv \<and> truthy (PStr (argv ! 2))
              then (case py_int (argv ! 2) of Inl exc \<Rightarrow> Inl exc | Inr n \<Rightarrow> Inr (PInt n))
              else Inr PNone) of
          Inl exc \<Rightarrow> (Inl exc, w)
        | Inr page_num \<Rightarrow>
            let base_url =
                  py_or (py_or (getenv environ ''OCR_BASE_URL'') (getenv environ ''OCR_ENDPOINT''))
                    (PStr ''https://api.opentyphoon.ai/v1'');
                api_key =
                  py_or (py_or (getenv environ ''OCR_API_KEY'') (getenv environ ''TYPHOON_OCR_API_KEY''))
                    (getenv environ ''OPENAI_API_KEY'');
                kwargs0 = [''pdf_or_image_path'' \<mapsto> PStr file_path, ''base_url'' \<mapsto> base_url];
                kwargs1 = (if truthy api_key then kwargs0(''api_key'' \<mapsto> api_key) else kwargs0);
                kwargs2 = (if page_num \<noteq> PNone then kwargs1(''page_num'' \<mapsto> page_num) else kwargs1);
                w1 = w\<lparr>ocr_calls := ocr_calls w @ [kwargs2]\<rparr>
            in (case ocr_document kwargs2 of
                  Inl exc \<Rightarrow> (Inl exc, w1)
                | Inr markdown \<Rightarrow>
                    (Inr (), w1\<lparr>stdout := print (stdout w1) (json_dumps [(''markdown'', markdown)])\<rparr>)))"

text \<open>
  The block under \<^verbatim>\<open>if __name__ == "__main__"\<close>: the process starts with nothing written
  and no call made; an exception of \<open>main\<close> is printed on standard error and the exit
  status is 1; otherwise the interpreter ends with status 0.
\<close>

definition start :: world where
  "start = \<lparr>stdout = [], stderr = [], ocr_calls = []\<rparr>"

definition run_as_main ::
  "environ \<Rightarrow> (kwargs \<Rightarrow> pyexc + string) \<Rightarrow> string list \<Rightarrow> world \<times> nat"
where
  "run_as_main environ ocr_document argv =
     (case main environ ocr_document argv start of
        (Inr _, w) \<Rightarrow> (w, 0)
      | (Inl exc, w) \<Rightarrow> (w\<lparr>stderr := print (stderr w) (exc_str exc)\<rparr>, 1))"

subsection \<open>Notions used in the statements and proofs\<close>

text \<open>
  The two stages of \<open>main\<close> before the call, named so that the lemmas below can speak
  about them: the value bound to \<^verbatim>\<open>page_num\<close>, and the dictionary \<^verbatim>\<open>kwargs\<close> at the call.
  Lemma \<open>run_as_main_unfold\<close> shows that \<open>main\<close> is their composition.
\<close>

definition page_num_arg :: "string list \<Rightarrow> pyexc + pyval" where
  "page_num_arg argv =
     (if 3 \<le> length argv \<and> argv ! 2 \<noteq> []
      then (case py_int (argv ! 2) of Inl exc \<Rightarrow> Inl exc | Inr n \<Rightarrow> Inr (PInt n))
      else Inr PNone)"

definition call_kwargs :: "environ \<Rightarrow> string list \<Rightarrow> pyval \<Rightarrow> kwargs" where
  "call_kwargs environ argv page_num =
     (let base_url =
            py_or (py_or (getenv environ ''OCR_BASE_URL'') (getenv environ ''OCR_ENDPOINT''))
              (PStr ''https://api.opentyphoon.ai/v1'');
          api_key =
            py_or (py_or (getenv environ ''OCR_API_KEY'') (getenv environ ''TYPHOON_OCR_API_KEY''))
              (getenv environ ''OPENAI_API_KEY'');
          kwargs0 = [''pdf_or_image_path'' \<mapsto> PStr (argv ! 1), ''base_url'' \<mapsto> base_url];
          kwargs1 = (if truthy api_key then kwargs0(''api_key'' \<mapsto> api_key) else kwargs0)
      in if page_num \<noteq> PNone then kwargs1(''page_num'' \<mapsto> page_num) else kwargs1)"

subsection \<open>Reference notions for the statements\<close>





text \<open>
  A reader of JSON texts (RFC 8259) that hold one object with one member whose name and
  value are strings: white space between the tokens, and in a string the escapes
  \<^verbatim>\<open>\" \\ \/ \b \f \n \r \t\<close> and \<^verbatim>\<open>\uXXXX\<close>; a control character written as
  itself ends the reading with \<open>None\<close>. \<open>json_read_chars\<close> reads after the opening quote
  and returns the string and what follows the closing quote.
\<close>

definition hex_value :: "char \<Rightarrow> nat option" where
  "hex_value c =
     (let n = (of_char c :: nat)
      in if 48 \<le> n \<and> n \<le> 57 then Some (n - 48)
         else if 97 \<le> n \<and> n \<le> 102 then Some (n - 87)
         else if 65 \<le> n \<and> n \<le> 70 then Some (n - 55)
         else None)"

definition simple_escape :: "char \<Rightarrow> char option" where
  "simple_escape e =
     (if e = CHR 0x22 then Some (CHR 0x22)
      else if e = CHR 0x5C then Some (CHR 0x5C)
      else if e = CHR ''/'' then Some (CHR ''/'')
      else if e = CHR ''b'' then Some (CHR 0x08)
      else if e = CHR ''f'' then Some (CHR 0x0C)
      else if e = CHR ''n'' then Some (CHR 0x0A)
      else if e = CHR ''r'' then Some (CHR 0x0D)
      else if e = CHR ''t'' then Some (CHR 0x09)
      else None)"

fun json_read_chars :: "string \<Rightarrow> (string \<times> string) option" where
  "json_read_chars [] = None"
| "json_read_chars (c # cs) =
     (if c = CHR 0x22 then Some ([], cs)
      else if c = CHR 0x5C then
        (case cs of
           [] \<Rightarrow> None
         | e # r \<Rightarrow>
             if e = CHR ''u'' then
               (case r of
                  h1 # h2 # h3 # h4 # r' \<Rightarrow>
                    (case (hex_value h1, hex_value h2, hex_value h3, hex_value h4) of
                       (Some a, Some b, Some c, Some d) \<Rightarrow>
                         if ((a * 16 + b) * 16 + c) * 16 + d < 256
                         then map_option (apfst ((#) (char_of (((a * 16 + b) * 16 + c) * 16 + d))))
                                (json_read_chars r')
                         else None
                     | _ \<Rightarrow> None)
                | _ \<Rightarrow> None)
             else
               (case simple_escape e of
                  None \<Rightarrow> None
                | Some ch \<Rightarrow> map_option (apfst ((#) ch)) (json_read_chars r)))
      else if (of_char c :: nat) < 32 then None
      else map_option (apfst ((#) c)) (json_read_chars cs))"

definition json_ws :: "char \<Rightarrow> bool" where
  "json_ws c = (c = CHR '' '' \<or> c = CHR 0x09 \<or> c = CHR 0x0A \<or> c = CHR 0x0D)"

definition json_read_string :: "string \<Rightarrow> (string \<times> string) option" where
  "json_read_string s =
     (case dropWhile json_ws s of
        [] \<Rightarrow> None
      | c # cs \<Rightarrow> if c = CHR 0x22 then json_read_chars cs else None)"

definition json_expect :: "char \<Rightarrow> string \<Rightarrow> string option" where
  "json_expect ch s =
     (case dropWhile json_ws s of
        [] \<Rightarrow> None
      | c # cs \<Rightarrow> if c = ch then Some cs else None)"

definition json_read_single_member :: "string \<Rightarrow> (string \<times> string) option" where
  "json_read_single_member s =
     (case json_expect (CHR ''{'') s of
        None \<Rightarrow> None
      | Some s1 \<Rightarrow>
          (case json_read_string s1 of
             None \<Rightarrow> None
           | Some (k, s2) \<Rightarrow>
               (case json_expect (CHR '':'') s2 of
                  None \<Rightarrow> None
                | Some s3 \<Rightarrow>
                    (case json_read_string s3 of
                       None \<Rightarrow> None
                     | Some (v, s4) \<Rightarrow>
                         (case json_expect (CHR ''}'') s4 of
                            None \<Rightarrow> None
                          | Some s5 \<Rightarrow> if dropWhile json_ws s5 = [] then Some (k, v) else None)))))"

section \<open>Properties\<close>

subsection \<open>The shape of a run\<close>

lemma run_as_main_unfold:
  "run_as_main environ ocr_document argv =
     (if length argv < 2
      then (\<lparr>stdout = [], stderr = usage @ [CHR 0x0A], ocr_calls = []\<rparr>, 1)
      else
        case page_num_arg argv of
          Inl exc \<Rightarrow> (\<lparr>stdout = [], stderr = exc_str exc @ [CHR 0x0A], ocr_calls = []\<rparr>, 1)
        | Inr page_num \<Rightarrow>
            (case ocr_document (call_kwargs environ argv page_num) of
               Inl exc \<Rightarrow>
                 (\<lparr>stdout = [], stderr = exc_str exc @ [CHR 0x0A],
                   ocr_calls = [call_kwargs environ argv page_num]\<rparr>, 1)
             | Inr markdown \<Rightarrow>
                 (\<lparr>stdout = json_dumps [(''markdown'', markdown)] @ [CHR 0x0A], stderr = [],
                   ocr_calls = [call_kwargs environ argv page_num]\<rparr>, 0)))"
  unfolding run_as_main_def main_def page_num_arg_def call_kwargs_def start_def print_def
    ValueError_def Let_def
  by (simp split: sum.split)




lemma call_kwargs_page_num:
  "call_kwargs environ argv p ''page_num'' = (if p = PNone then None else Some p)"
  by (simp add: call_kwargs_def Let_def)


lemma call_kwargs_dom:
  "dom (call_kwargs environ argv p) \<subseteq> {''pdf_or_image_path'', ''base_url'', ''api_key'', ''page_num''}"
  by (auto simp: call_kwargs_def Let_def split: if_splits)

subsection \<open>Integer parsing\<close>









lemma scan_digits_consumed:
  "scan_digits p acc t = Some (n, rest) \<Longrightarrow>
     \<exists>pre. t = pre @ rest \<and> (\<forall>c \<in> set pre. is_digit c \<or> c = CHR ''_'')"
proof (induction t arbitrary: p acc)
  case Nil
  then show ?case by (simp split: if_splits)
next
  case (Cons c cs)
  show ?case
  proof (cases "c = CHR ''_'' \<or> is_digit c")
    case True
    then obtain p' acc' where "scan_digits p' acc' cs = Some (n, rest)"
      using Cons.prems by (auto split: if_splits)
    then obtain pre where "cs = pre @ rest" "\<forall>c \<in> set pre. is_digit c \<or> c = CHR ''_''"
      using Cons.IH by blast
    with True have "c # cs = (c # pre) @ rest \<and> (\<forall>d \<in> set (c # pre). is_digit d \<or> d = CHR ''_'')"
      by auto
    then show ?thesis by blast
  next
    case False
    with Cons.prems have "rest = c # cs" by (auto split: if_splits)
    then have "c # cs = [] @ rest \<and> (\<forall>d \<in> set []. is_digit d \<or> d = CHR ''_'')" by simp
    then show ?thesis by blast
  qed
qed

lemma split_sign_chars:
  "split_sign d = (neg, t) \<Longrightarrow> d = t \<or> d = CHR ''+'' # t \<or> d = CHR ''-'' # t"
  by (cases d) (auto simp: split_sign_def split: if_splits)

lemma parse_int_chars:
  assumes "parse_int s = Some n" and "c \<in> set s"
  shows "is_digit c \<or> is_space c \<or> c = CHR ''+'' \<or> c = CHR ''-'' \<or> c = CHR ''_''"
proof -
  obtain neg t where sg: "split_sign (dropWhile is_space s) = (neg, t)"
    by (cases "split_sign (dropWhile is_space s)")
  with assms(1) obtain m rest where sc: "scan_digits False 0 t = Some (m, rest)"
    and tl: "dropWhile is_space rest = []"
    by (auto simp: parse_int_def split: list.splits if_splits option.splits)
  from scan_digits_consumed [OF sc] obtain pre where
    t: "t = pre @ rest" and pre: "\<forall>c \<in> set pre. is_digit c \<or> c = CHR ''_''"
    by blast
  from tl have rest: "\<forall>c \<in> set rest. is_space c"
    by (simp add: dropWhile_eq_Nil_conv)
  have "set s = set (takeWhile is_space s) \<union> set (dropWhile is_space s)"
    by (metis set_append takeWhile_dropWhile_id)
  moreover have "\<forall>c \<in> set (takeWhile is_space s). is_space c"
    by (auto dest: set_takeWhileD)
  moreover have "set (dropWhile is_space s) \<subseteq> {CHR ''+'', CHR ''-''} \<union> set t"
    using split_sign_chars [OF sg] by auto
  ultimately show ?thesis
    using assms(2) t pre rest by auto
qed

lemma py_int_rejects_other_characters:
  "c \<in> set s \<Longrightarrow>
   \<not> (is_digit c \<or> is_space c \<or> c = CHR ''+'' \<or> c = CHR ''-'' \<or> c = CHR ''_'') \<Longrightarrow>
     \<exists>exc. py_int s = Inl exc"
  using parse_int_chars [of s _ c]
  by (cases "parse_int s") (auto simp: py_int_def)

subsection \<open>Reading back what \<^verbatim>\<open>json.dumps\<close> writes\<close>

lemma hex_value_hexdigits_upto: "\<forall>k \<in> set [0..<16]. hex_value (hexdigits ! k) = Some k"
  by code_simp

lemma hex_value_hexdigits: "k < 16 \<Longrightarrow> hex_value (hexdigits ! k) = Some k"
  using hex_value_hexdigits_upto by simp

lemma hex_value_zero: "hex_value (CHR ''0'') = Some 0"
  by (simp add: hex_value_def)

lemma of_char_less_256: "(of_char c :: nat) < 256"
  by (cases c) simp

lemma json_read_chars_escape:
  "json_read_chars (json_escape_char c @ rest) = map_option (apfst ((#) c)) (json_read_chars rest)"
proof -
  let ?n = "of_char c :: nat"
  have n: "?n < 256" by (rule of_char_less_256)
  then have d: "?n div 16 < 16" and m: "?n mod 16 < 16"
    by (presburger, presburger)
  have rebuild: "char_of (?n div 16 * 16 + ?n mod 16) = c" by simp
  show ?thesis
    using n rebuild
    by (auto simp: json_escape_char_def hex2_def hex_value_hexdigits [OF d]
          hex_value_hexdigits [OF m] hex_value_zero simple_escape_def)
qed

lemma json_read_chars_concat:
  "json_read_chars (concat (map json_escape_char s) @ CHR 0x22 # rest) = Some (s, rest)"
  by (induction s) (simp_all add: json_read_chars_escape)

lemma json_read_string_encoded:
  "json_read_string (py_encode_basestring_ascii s @ rest) = Some (s, rest)"
  using json_read_chars_concat [of s rest]
  by (simp add: json_read_string_def py_encode_basestring_ascii_def json_ws_def)

lemma json_read_string_space:
  "json_read_string (CHR '' '' # s) = json_read_string s"
  by (simp add: json_read_string_def json_ws_def)

lemma json_expect_here: "\<not> json_ws c \<Longrightarrow> json_expect c (c # s) = Some s"
  by (simp add: json_expect_def)

lemma json_read_single_member_dumps:
  "json_read_single_member (json_dumps [(k, v)] @ [CHR 0x0A]) = Some (k, v)"
proof -
  have "json_dumps [(k, v)] @ [CHR 0x0A] =
      CHR ''{'' # py_encode_basestring_ascii k @
        CHR '':'' # CHR '' '' # py_encode_basestring_ascii v @ CHR ''}'' # [CHR 0x0A]"
    by (simp add: json_dumps_def)
  then show ?thesis
    by (simp add: json_read_single_member_def json_expect_here json_read_string_encoded
          json_read_string_space json_ws_def)
qed

lemma hexdigits_nth_no_newline: "k < 16 \<Longrightarrow> hexdigits ! k \<noteq> CHR 0x0A"
proof -
  assume "k < 16"
  then have "hexdigits ! k \<in> set hexdigits"
    by (intro nth_mem) (simp add: hexdigits_def)
  moreover have "CHR 0x0A \<notin> set hexdigits"
    by (simp add: hexdigits_def)
  ultimately show ?thesis by metis
qed

lemma json_escape_char_no_newline: "CHR 0x0A \<notin> set (json_escape_char c)"
proof -
  have "(of_char c :: nat) < 256" by (rule of_char_less_256)
  then have "(of_char c :: nat) div 16 < 16" and "(of_char c :: nat) mod 16 < 16"
    by (presburger, presburger)
  then have "CHR 0x0A \<noteq> hexdigits ! (of_char c div 16)"
    and "CHR 0x0A \<noteq> hexdigits ! (of_char c mod 16)"
    using hexdigits_nth_no_newline by (metis, metis)
  then show ?thesis
    by (simp add: json_escape_char_def hex2_def)
qed

lemma encoded_string_one_line: "CHR 0x0A \<notin> set (py_encode_basestring_ascii s)"
  by (auto simp: py_encode_basestring_ascii_def json_escape_char_no_newline)

subsection \<open>Usage error\<close>

text \<open>
  Claim C1. With fewer than two process arguments the run ends with exit status 1, the
  fixed usage message (and the newline of \<^verbatim>\<open>print\<close>) is all that is on standard error,
  nothing is on standard output, and \<^verbatim>\<open>ocr_document\<close> has not been called.
\<close>

theorem usage_error_without_file_path:
  "length argv < 2 \<Longrightarrow>
     run_as_main environ ocr_document argv =
       (\<lparr>stdout = [],
         stderr = ''Usage: typhoon_ocr_runner.py <file_path> [page_num]'' @ [CHR 0x0A],
         ocr_calls = []\<rparr>, 1)"
  by (simp add: run_as_main_def main_def start_def print_def ValueError_def usage_def)

theorem usage_error_without_file_path_witness:
  "length [''typhoon_ocr_runner.py''] < 2 \<and>
   run_as_main Map.empty (\<lambda>kw. Inr ''text'') [''typhoon_ocr_runner.py''] =
     (\<lparr>stdout = [],
       stderr = ''Usage: typhoon_ocr_runner.py <file_path> [page_num]'' @ [CHR 0x0A],
       ocr_calls = []\<rparr>, 1)"
  using usage_error_without_file_path [of "[''typhoon_ocr_runner.py'']" Map.empty "\<lambda>kw. Inr ''text''"]
  by simp

subsection \<open>Failure of the OCR call\<close>

text \<open>
  Claim C2. When the call of \<^verbatim>\<open>ocr_document\<close> raises an exception, the run ends with exit
  status 1, standard error holds the text of the exception (and the newline of
  \<^verbatim>\<open>print\<close>), and standard output is empty. The hypotheses say that the run makes the
  call with the keyword arguments \<open>kw\<close> and that \<^verbatim>\<open>ocr_document\<close> raises \<open>exc\<close> on them.
\<close>

theorem ocr_failure_reported:
  "ocr_calls (fst (run_as_main environ ocr_document argv)) = [kw] \<Longrightarrow>
   ocr_document kw = Inl exc \<Longrightarrow>
     run_as_main environ ocr_document argv =
       (\<lparr>stdout = [], stderr = exc_str exc @ [CHR 0x0A], ocr_calls = [kw]\<rparr>, 1)"
  by (auto simp: run_as_main_unfold split: if_splits sum.splits)

theorem ocr_failure_reported_witness:
  "ocr_calls (fst (run_as_main Map.empty (\<lambda>kw. Inl (PyExc ''RuntimeError'' ''rate limited''))
      [''typhoon_ocr_runner.py'', ''scan.pdf''])) =
     [[''pdf_or_image_path'' \<mapsto> PStr ''scan.pdf'',
       ''base_url'' \<mapsto> PStr ''https://api.opentyphoon.ai/v1'']] \<and>
   run_as_main Map.empty (\<lambda>kw. Inl (PyExc ''RuntimeError'' ''rate limited''))
      [''typhoon_ocr_runner.py'', ''scan.pdf''] =
     (\<lparr>stdout = [], stderr = ''rate limited'' @ [CHR 0x0A],
       ocr_calls = [[''pdf_or_image_path'' \<mapsto> PStr ''scan.pdf'',
                     ''base_url'' \<mapsto> PStr ''https://api.opentyphoon.ai/v1'']]\<rparr>, 1)"
proof -
  have calls:
    "ocr_calls (fst (run_as_main Map.empty (\<lambda>kw. Inl (PyExc ''RuntimeError'' ''rate limited''))
        [''typhoon_ocr_runner.py'', ''scan.pdf''])) =
       [[''pdf_or_image_path'' \<mapsto> PStr ''scan.pdf'',
         ''base_url'' \<mapsto> PStr ''https://api.opentyphoon.ai/v1'']]"
    by (simp add: run_as_main_unfold page_num_arg_def call_kwargs_def py_or_def getenv_def)
  show ?thesis
    using calls ocr_failure_reported [OF calls, of "PyExc ''RuntimeError'' ''rate limited''"]
    by simp
qed

subsection \<open>Environment precedence\<close>





subsection \<open>The page number\<close>





subsection \<open>Success\<close>

text \<open>
  Claim C7. When the call of \<^verbatim>\<open>ocr_document\<close> returns the string \<open>markdown\<close>, the run ends
  with exit status 0 and nothing on standard error, and standard output is the line
  \<^verbatim>\<open>{"markdown": ...}\<close> where the dots are the string as \<^verbatim>\<open>json.dumps\<close> writes it. Read as
  JSON that line is one object with the one member \<^verbatim>\<open>markdown\<close>, whose value is the string
  returned, character for character (so with its newlines).
\<close>

theorem success_prints_json_object:
  \<open>ocr_calls (fst (run_as_main environ ocr_document argv)) = [kw] \<Longrightarrow>
   ocr_document kw = Inr markdown \<Longrightarrow>
     run_as_main environ ocr_document argv =
       (\<lparr>stdout = ''{"markdown": '' @ py_encode_basestring_ascii markdown @ ''}'' @ [CHR 0x0A],
         stderr = [], ocr_calls = [kw]\<rparr>, 0) \<and>
     json_read_single_member (stdout (fst (run_as_main environ ocr_document argv))) =
       Some (''markdown'', markdown)\<close>
proof -
  assume calls: "ocr_calls (fst (run_as_main environ ocr_document argv)) = [kw]"
    and ok: "ocr_document kw = Inr markdown"
  have run: "run_as_main environ ocr_document argv =
      (\<lparr>stdout = json_dumps [(''markdown'', markdown)] @ [CHR 0x0A], stderr = [],
        ocr_calls = [kw]\<rparr>, 0)"
    using calls ok by (auto simp: run_as_main_unfold split: if_splits sum.splits)
  have key: \<open>json_dumps [(''markdown'', markdown)] =
      ''{"markdown": '' @ py_encode_basestring_ascii markdown @ ''}''\<close>
    by (simp add: json_dumps_def py_encode_basestring_ascii_def json_escape_char_def)
  show ?thesis
    using run json_read_single_member_dumps [of "''markdown''" markdown]
    by (simp add: key)
qed

theorem success_prints_json_object_witness:
  \<open>ocr_calls (fst (run_as_main Map.empty (\<lambda>kw. Inr (''# Title'' @ [CHR 0x0A] @ ''Body''))
      [''typhoon_ocr_runner.py'', ''scan.pdf''])) =
     [[''pdf_or_image_path'' \<mapsto> PStr ''scan.pdf'',
       ''base_url'' \<mapsto> PStr ''https://api.opentyphoon.ai/v1'']] \<and>
   run_as_main Map.empty (\<lambda>kw. Inr (''# Title'' @ [CHR 0x0A] @ ''Body''))
      [''typhoon_ocr_runner.py'', ''scan.pdf''] =
     (\<lparr>stdout = ''{"markdown": "# Title'' @ [CHR 0x5C] @ ''nBody"}'' @ [CHR 0x0A],
       stderr = [],
       ocr_calls = [[''pdf_or_image_path'' \<mapsto> PStr ''scan.pdf'',
                     ''base_url'' \<mapsto> PStr ''https://api.opentyphoon.ai/v1'']]\<rparr>, 0)\<close>
proof -
  have calls:
    "ocr_calls (fst (run_as_main Map.empty (\<lambda>kw. Inr (''# Title'' @ [CHR 0x0A] @ ''Body''))
        [''typhoon_ocr_runner.py'', ''scan.pdf''])) =
       [[''pdf_or_image_path'' \<mapsto> PStr ''scan.pdf'',
         ''base_url'' \<mapsto> PStr ''https://api.opentyphoon.ai/v1'']]"
    by (simp add: run_as_main_unfold page_num_arg_def call_kwargs_def py_or_def getenv_def)
  show ?thesis
    using calls
      success_prints_json_object [OF calls, of "''# Title'' @ [CHR 0x0A] @ ''Body''"]
    by (simp add: py_encode_basestring_ascii_def json_escape_char_def)
qed

subsection \<open>A page number that is not an integer\<close>

text \<open>
  Claim C8. When the second positional argument is not empty and \<^verbatim>\<open>int\<close> raises on it, the
  run ends with exit status 1, standard error holds the text of that exception (and the
  newline of \<^verbatim>\<open>print\<close>), standard output is empty and \<^verbatim>\<open>ocr_document\<close> has not been
  called. Lemma \<open>py_int_rejects_other_characters\<close> above gives such arguments: every
  string with a character other than a digit, white space, a sign or an underscore. The
  instance after the theorem runs the script on \<^verbatim>\<open>abc\<close> and on \<^verbatim>\<open>3.5\<close>.
\<close>

theorem unparsable_page_num_reported:
  "3 \<le> length argv \<Longrightarrow> argv ! 2 \<noteq> [] \<Longrightarrow> py_int (argv ! 2) = Inl exc \<Longrightarrow>
     run_as_main environ ocr_document argv =
       (\<lparr>stdout = [], stderr = exc_str exc @ [CHR 0x0A], ocr_calls = []\<rparr>, 1)"
  by (simp add: run_as_main_unfold page_num_arg_def)

theorem unparsable_page_num_reported_witness:
  "py_int ''abc'' =
     Inl (PyExc ''ValueError'' (''invalid literal for int() with base 10: '' @ [CHR 0x27] @ ''abc'' @ [CHR 0x27])) \<and>
   run_as_main Map.empty (\<lambda>kw. Inr ''text'') [''typhoon_ocr_runner.py'', ''scan.pdf'', ''abc''] =
     (\<lparr>stdout = [],
       stderr = ''invalid literal for int() with base 10: '' @ [CHR 0x27] @ ''abc'' @ [CHR 0x27, CHR 0x0A],
       ocr_calls = []\<rparr>, 1) \<and>
   py_int ''3.5'' =
     Inl (PyExc ''ValueError'' (''invalid literal for int() with base 10: '' @ [CHR 0x27] @ ''3.5'' @ [CHR 0x27])) \<and>
   run_as_main Map.empty (\<lambda>kw. Inr ''text'') [''typhoon_ocr_runner.py'', ''scan.pdf'', ''3.5''] =
     (\<lparr>stdout = [],
       stderr = ''invalid literal for int() with base 10: '' @ [CHR 0x27] @ ''3.5'' @ [CHR 0x27, CHR 0x0A],
       ocr_calls = []\<rparr>, 1)"
proof -
  have abc: "py_int ([''typhoon_ocr_runner.py'', ''scan.pdf'', ''abc''] ! 2) =
      Inl (PyExc ''ValueError'' (''invalid literal for int() with base 10: '' @ [CHR 0x27] @ ''abc'' @ [CHR 0x27]))"
    by (simp add: py_int_def parse_int_def split_sign_def is_space_def is_digit_def ValueError_def
          py_repr_def repr_char_def is_printable_def Let_def)
  have dot: "py_int ([''typhoon_ocr_runner.py'', ''scan.pdf'', ''3.5''] ! 2) =
      Inl (PyExc ''ValueError'' (''invalid literal for int() with base 10: '' @ [CHR 0x27] @ ''3.5'' @ [CHR 0x27]))"
    by (simp add: py_int_def parse_int_def split_sign_def is_space_def is_digit_def ValueError_def
          py_repr_def repr_char_def is_printable_def digit_value_def Let_def)
  show ?thesis
    using abc dot
      unparsable_page_num_reported [OF _ _ abc, of Map.empty "\<lambda>kw. Inr ''text''"]
      unparsable_page_num_reported [OF _ _ dot, of Map.empty "\<lambda>kw. Inr ''text''"]
    by simp
qed

subsection \<open>No validation of the page number\<close>

text \<open>
  Claim C9. Whatever integer \<open>n\<close> the builtin \<^verbatim>\<open>int\<close> returns for a second positional
  argument that is not empty (positive, zero or negative), \<^verbatim>\<open>ocr_document\<close> is called once
  with \<^verbatim>\<open>page_num\<close> that same \<open>n\<close>. The instance below runs the script on \<^verbatim>\<open>-5\<close> and on
  \<^verbatim>\<open>0\<close>.
\<close>

theorem page_num_not_validated:
  "3 \<le> length argv \<Longrightarrow> argv ! 2 \<noteq> [] \<Longrightarrow> py_int (argv ! 2) = Inr n \<Longrightarrow>
     \<exists>kw. ocr_calls (fst (run_as_main environ ocr_document argv)) = [kw] \<and>
          kw ''page_num'' = Some (PInt n)"
proof -
  assume len: "3 \<le> length argv" and ne: "argv ! 2 \<noteq> []" and n: "py_int (argv ! 2) = Inr n"
  have "ocr_calls (fst (run_as_main environ ocr_document argv)) = [call_kwargs environ argv (PInt n)]"
    using len ne n by (simp add: run_as_main_unfold page_num_arg_def split: sum.split)
  then show ?thesis
    by (simp add: call_kwargs_page_num)
qed

theorem page_num_not_validated_witness:
  "py_int ''-5'' = Inr (- 5) \<and>
   (\<exists>kw. ocr_calls (fst (run_as_main Map.empty (\<lambda>kw. Inr ''text'')
            [''typhoon_ocr_runner.py'', ''scan.pdf'', ''-5''])) = [kw] \<and>
         kw ''page_num'' = Some (PInt (- 5))) \<and>
   py_int ''0'' = Inr 0 \<and>
   (\<exists>kw. ocr_calls (fst (run_as_main Map.empty (\<lambda>kw. Inr ''text'')
            [''typhoon_ocr_runner.py'', ''scan.pdf'', ''0''])) = [kw] \<and>
         kw ''page_num'' = Some (PInt 0))"
proof -
  have neg: "py_int ([''typhoon_ocr_runner.py'', ''scan.pdf'', ''-5''] ! 2) = Inr (- 5)"
    by (simp add: py_int_def parse_int_def split_sign_def is_space_def is_digit_def
          digit_value_def)
  have zero: "py_int ([''typhoon_ocr_runner.py'', ''scan.pdf'', ''0''] ! 2) = Inr 0"
    by (simp add: py_int_def parse_int_def split_sign_def is_space_def is_digit_def
          digit_value_def)
  show ?thesis
    using neg zero
      page_num_not_validated [OF _ _ neg, of Map.empty "\<lambda>kw. Inr ''text''"]
      page_num_not_validated [OF _ _ zero, of Map.empty "\<lambda>kw. Inr ''text''"]
    by simp
qed

subsection \<open>Arguments after the second\<close>

text \<open>
  Claim C10. Two argument lists that both have a first and a second positional argument and
  agree on them give the same run, with the same environment and the same
  \<^verbatim>\<open>ocr_document\<close>: the same calls, the same standard output and standard error, the
  same exit status. What comes after the second positional argument is not read.
\<close>

theorem extra_arguments_ignored:
  "3 \<le> length argv \<Longrightarrow> 3 \<le> length argv' \<Longrightarrow>
   argv ! 1 = argv' ! 1 \<Longrightarrow> argv ! 2 = argv' ! 2 \<Longrightarrow>
     run_as_main environ ocr_document argv = run_as_main environ ocr_document argv'"
proof -
  assume a: "3 \<le> length argv" "3 \<le> length argv'" "argv ! 1 = argv' ! 1" "argv ! 2 = argv' ! 2"
  then have p: "page_num_arg argv = page_num_arg argv'"
    by (simp add: page_num_arg_def)
  have k: "call_kwargs environ argv q = call_kwargs environ argv' q" for q
    using a by (simp add: call_kwargs_def)
  show ?thesis
    using a by (simp add: run_as_main_unfold p k split: sum.split)
qed

theorem extra_arguments_ignored_witness:
  "3 \<le> length [''typhoon_ocr_runner.py'', ''scan.pdf'', ''3''] \<and>
   3 \<le> length [''typhoon_ocr_runner.py'', ''scan.pdf'', ''3'', ''extra'', ''--flag''] \<and>
   run_as_main Map.empty (\<lambda>kw. Inr ''text'') [''typhoon_ocr_runner.py'', ''scan.pdf'', ''3''] =
   run_as_main Map.empty (\<lambda>kw. Inr ''text'')
     [''typhoon_ocr_runner.py'', ''scan.pdf'', ''3'', ''extra'', ''--flag'']"
  using extra_arguments_ignored
    [of "[''typhoon_ocr_runner.py'', ''scan.pdf'', ''3'']"
        "[''typhoon_ocr_runner.py'', ''scan.pdf'', ''3'', ''extra'', ''--flag'']"
        Map.empty "\<lambda>kw. Inr ''text''"]
  by simp

end
